theory Spec2Isabelle
  imports Main
begin

section \<open>The module schematic: data model\<close>

text \<open>
  A shallow embedding of \<^verbatim>\<open>packages/schematics/angular/module/index.ts\<close>.
  The options object, the host tree and the thrown errors are explicit values; a rule
  is a function from the tree to an optional error and the tree as it stands when the
  rule returns or throws.
\<close>

datatype RoutingScope = Child | Root

text \<open>
  The schema's options. Optional string fields are \<open>string option\<close>, where
  \<open>None\<close> is JavaScript's \<^verbatim>\<open>undefined\<close>; the optional boolean flags are only ever
  tested for truthiness and are plain booleans.
\<close>

record ModuleOptions =
  name :: string
  path :: "string option"
  project :: "string option"
  module :: "string option"
  route :: "string option"
  routingScope :: "RoutingScope option"
  flat :: bool
  routing :: bool
  lintFix :: bool

text \<open>The exceptions of the source, by class and message.\<close>

datatype error =
    SchematicsException string
  | Error string
  | TypeError string
  | FileDoesNotExistException string

text \<open>The change classes of \<^verbatim>\<open>utility/change\<close>: only \<open>InsertChange\<close> is inspected here.\<close>

datatype change =
    InsertChange string nat string
  | NoopChange
  | RemoveChange string nat string
  | ReplaceChange string nat string string

text \<open>
  The host tree: the files it holds and, as a history, the operations the schematic's
  own code has issued on it (every \<^verbatim>\<open>host.read\<close>, \<^verbatim>\<open>host.beginUpdate\<close> and
  \<^verbatim>\<open>host.commitUpdate\<close>, the last with the inserts of its recorder).
\<close>

datatype tree_op =
    Read string
  | BeginUpdate string
  | CommitUpdate string "(nat \<times> string) list"

record tree =
  files :: "string \<rightharpoonup> string"
  ops :: "tree_op list"

record update_recorder =
  rec_path :: string
  rec_original :: string
  rec_inserts :: "(nat \<times> string) list"

record source_file =
  fileName :: string
  sourceText :: string

record location =
  loc_name :: string
  loc_path :: string

type_synonym rule = "tree \<Rightarrow> error option \<times> tree"

text \<open>
  The template source of lines 163-175, as the values it is built from: whether the
  \<^verbatim>\<open>-routing.module.ts.template\<close> files are kept, the two template flags, the options
  spread into the template context and the directory the files are moved to.
\<close>

record template_source =
  keepRoutingTemplate :: bool
  lazyRoute :: bool
  routeDeclarationInlined :: bool
  templateOptions :: ModuleOptions
  moveTo :: string

text \<open>
  The collaborators that \<^verbatim>\<open>index.ts\<close> imports and that are not part of it are
  parameters of the model: the string helpers of \<^verbatim>\<open>@angular-devkit/core\<close>, the
  analyzers of \<^verbatim>\<open>utility/ast-utils\<close>, the lookups of \<^verbatim>\<open>utility/find-module\<close>,
  \<^verbatim>\<open>utility/project\<close>, \<^verbatim>\<open>utility/workspace\<close> and \<^verbatim>\<open>utility/parse-name\<close>, the
  rules run after the two edits, and the function by which the file store merges the
  inserts of a recorder into a text. A lookup receives the tree and returns a value
  or throws; it does not hand back a tree. The type \<open>'p\<close> is the project descriptor.
\<close>

record 'p env =
  classify :: "string \<Rightarrow> string"
  dasherize :: "string \<Rightarrow> string"
  normalize :: "string \<Rightarrow> string"
  buildRelativePath :: "string \<Rightarrow> string \<Rightarrow> string"
  addImportToModule :: "source_file \<Rightarrow> string \<Rightarrow> string \<Rightarrow> string \<Rightarrow> change list"
  addRouteDeclarationToModule :: "source_file \<Rightarrow> string \<Rightarrow> string \<Rightarrow> error + nat \<times> string"
  findModuleFromOptions :: "tree \<Rightarrow> ModuleOptions \<Rightarrow> error + string option"
  createDefaultPath :: "tree \<Rightarrow> string option \<Rightarrow> error + string"
  parseName :: "string \<Rightarrow> string \<Rightarrow> location"
  getProject :: "tree \<Rightarrow> string option \<Rightarrow> error + 'p"
  isProjectUsingIvy :: "tree \<Rightarrow> 'p \<Rightarrow> bool"
  schematic :: "string \<Rightarrow> ModuleOptions \<Rightarrow> bool \<Rightarrow> rule"
  mergeWith :: "template_source \<Rightarrow> rule"
  applyLintFix :: "string option \<Rightarrow> rule"
  mergeInserts :: "string \<Rightarrow> (nat \<times> string) list \<Rightarrow> string"

section \<open>JavaScript values\<close>

text \<open>
  Truthiness of a \<^verbatim>\<open>string | undefined\<close>: what \<^verbatim>\<open>if (options.route)\<close> and
  \<^verbatim>\<open>!options.module\<close> test. \<^verbatim>\<open>undefined\<close> and the empty string are falsy.
\<close>

definition truthy :: "string option \<Rightarrow> bool" where
  "truthy x = (case x of None \<Rightarrow> False | Some s \<Rightarrow> s \<noteq> [])"

text \<open>A \<^verbatim>\<open>string | undefined\<close> inside a template literal.\<close>

definition interpolate :: "string option \<Rightarrow> string" where
  "interpolate x = (case x of None \<Rightarrow> ''undefined'' | Some s \<Rightarrow> s)"

text \<open>The single quote, for string literals that begin or end with one.\<close>

definition sq :: string where
  "sq = [CHR 0x27]"

text \<open>\<^verbatim>\<open>ts.createSourceFile(path, text, ...)\<close>: the parsed file, given by its name and text.\<close>

definition createSourceFile :: "string \<Rightarrow> string \<Rightarrow> source_file" where
  "createSourceFile p t = \<lparr>fileName = p, sourceText = t\<rparr>"

section \<open>The file store and the rule combinators\<close>

text \<open>
  The file store (\<^verbatim>\<open>Tree\<close> and \<^verbatim>\<open>UpdateRecorder\<close>) and the rule combinators belong to
  \<^verbatim>\<open>@angular-devkit/schematics\<close> and are not part of \<^verbatim>\<open>index.ts\<close>; they follow
  sections 4.5, 4.6, 6 and 7 of the specification. How the inserts of a recorder are
  merged into the text is left to \<open>mergeInserts\<close>.
\<close>

text \<open>
  Modelled from the spec: \<^verbatim>\<open>Tree.read\<close>, absent from the sources,
  \<^verbatim>\<open>read(path) -> bytes | null\<close>.
\<close>

definition tree_read :: "tree \<Rightarrow> string \<Rightarrow> string option \<times> tree" where
  "tree_read host p = (files host p, host\<lparr>ops := ops host @ [Read p]\<rparr>)"

text \<open>
  Modelled from the spec: \<^verbatim>\<open>Tree.beginUpdate\<close>, absent from the sources,
  \<^verbatim>\<open>beginUpdate(path) -> handle\<close>: a recorder on the file's current text. A path that
  holds no file has no text to record on.
\<close>

definition beginUpdate :: "tree \<Rightarrow> string \<Rightarrow> error + update_recorder \<times> tree" where
  "beginUpdate host p =
     (case files host p of
        None \<Rightarrow> Inl (FileDoesNotExistException p)
      | Some t \<Rightarrow>
          Inr (\<lparr>rec_path = p, rec_original = t, rec_inserts = []\<rparr>,
               host\<lparr>ops := ops host @ [BeginUpdate p]\<rparr>))"

text \<open>
  Modelled from the spec: \<^verbatim>\<open>UpdateRecorder.insertLeft\<close>, absent from the sources,
  \<^verbatim>\<open>insertLeft(handle, offset, text)\<close>: the insert is registered after those before it.
\<close>

definition insertLeft :: "update_recorder \<Rightarrow> nat \<Rightarrow> string \<Rightarrow> update_recorder" where
  "insertLeft recorder pos toAdd =
     recorder\<lparr>rec_inserts := rec_inserts recorder @ [(pos, toAdd)]\<rparr>"

text \<open>
  Modelled from the spec: \<^verbatim>\<open>Tree.commitUpdate\<close>, absent from the sources,
  \<^verbatim>\<open>commitUpdate(handle) -> persists merged text\<close>: all inserts of the handle land in
  its file at once.
\<close>

definition commitUpdate :: "'p env \<Rightarrow> tree \<Rightarrow> update_recorder \<Rightarrow> tree" where
  "commitUpdate env host recorder =
     host\<lparr>files := (files host)(rec_path recorder \<mapsto>
                mergeInserts env (rec_original recorder) (rec_inserts recorder)),
          ops := ops host @ [CommitUpdate (rec_path recorder) (rec_inserts recorder)]\<rparr>"

text \<open>Modelled from the spec: \<^verbatim>\<open>noop()\<close>, absent from the sources, the rule that does nothing.\<close>

definition noop :: rule where
  "noop host = (None, host)"

text \<open>
  Modelled from the spec: \<^verbatim>\<open>chain(rules)\<close>, absent from the sources: the rules run in
  sequence, each on the tree the one before left, and the first fatal error aborts the
  rest.
\<close>

fun chain_rules :: "rule list \<Rightarrow> rule" where
  "chain_rules [] host = (None, host)"
| "chain_rules (r # rs) host =
     (case r host of
        (Some e, host') \<Rightarrow> (Some e, host')
      | (None, host') \<Rightarrow> chain_rules rs host')"

section \<open>The functions of index.ts\<close>

text \<open>The argument of \<^verbatim>\<open>normalize\<close> at lines 50-53, and the constant of line 49.\<close>

definition importModulePath_raw :: "'p env \<Rightarrow> ModuleOptions \<Rightarrow> string" where
  "importModulePath_raw env options =
     ''/'' @ interpolate (path options) @ ''/''
     @ (if flat options then '''' else dasherize env (name options) @ ''/'')
     @ dasherize env (name options)
     @ ''.module''"

definition importModulePath :: "'p env \<Rightarrow> ModuleOptions \<Rightarrow> string" where
  "importModulePath env options = normalize env (importModulePath_raw env options)"

text \<open>Lines 62-66: the inserts among the changes are registered, in order.\<close>

definition record_change :: "update_recorder \<Rightarrow> change \<Rightarrow> update_recorder" where
  "record_change recorder c =
     (case c of
        InsertChange _ pos toAdd \<Rightarrow> insertLeft recorder pos toAdd
      | _ \<Rightarrow> recorder)"

text \<open>Lines 34-71.\<close>

definition addDeclarationToNgModule :: "'p env \<Rightarrow> ModuleOptions \<Rightarrow> rule" where
  "addDeclarationToNgModule env options host =
     (case module options of
        None \<Rightarrow> (None, host)
      | Some modulePath \<Rightarrow>
          if modulePath = [] then (None, host)
          else
            (case tree_read host modulePath of
               (None, host1) \<Rightarrow>
                 (Some (SchematicsException (''File '' @ modulePath @ '' does not exist.'')),
                  host1)
             | (Some text, host1) \<Rightarrow>
                 let source = createSourceFile modulePath text;
                     relativePath =
                       buildRelativePath env modulePath (importModulePath env options);
                     changes =
                       addImportToModule env source modulePath
                         (classify env (name options @ ''Module'')) relativePath
                 in (case beginUpdate host1 modulePath of
                       Inl e \<Rightarrow> (Some e, host1)
                     | Inr (recorder, host2) \<Rightarrow>
                         (None, commitUpdate env host2
                                  (foldl record_change recorder changes)))))"

text \<open>Lines 127-139.\<close>

definition buildRoute :: "'p env \<Rightarrow> ModuleOptions \<Rightarrow> bool \<Rightarrow> string" where
  "buildRoute env options ivyEnabled =
     (let modulePath = ''./'' @ name options @ ''/'' @ name options @ ''.module'';
          moduleName = classify env (name options) @ ''Module'';
          loadChildren =
            (if ivyEnabled
             then ''() => import('' @ sq @ modulePath @ sq @ '').then(m => m.''
                  @ moduleName @ '')''
             else sq @ modulePath @ ''#'' @ moduleName @ sq)
      in ''{ path: '' @ sq @ interpolate (route options) @ sq
         @ '', loadChildren: '' @ loadChildren @ '' }'')"

text \<open>
  Lines 73-112. The source casts the result of \<^verbatim>\<open>addRouteDeclarationToModule\<close> to
  \<open>InsertChange\<close> and reads its \<^verbatim>\<open>pos\<close> and \<^verbatim>\<open>toAdd\<close>: the collaborator is
  typed by that cast and returns the two, or throws. \<^verbatim>\<open>!text\<close> on the buffer that
  \<^verbatim>\<open>host.read\<close> returns is true for \<^verbatim>\<open>null\<close> only.
\<close>

definition addRouteDeclarationToNgModule ::
    "'p env \<Rightarrow> ModuleOptions \<Rightarrow> 'p \<Rightarrow> string option \<Rightarrow> rule" where
  "addRouteDeclarationToNgModule env options proj routingModulePath host =
     (if \<not> truthy (route options) then (None, host)
      else
        (case module options of
           None \<Rightarrow>
             (Some (Error ''Module option required when creating a lazy loaded routing module.''),
              host)
         | Some m \<Rightarrow>
             if m = [] then
               (Some (Error ''Module option required when creating a lazy loaded routing module.''),
                host)
             else
               let path' = (case routingModulePath of
                              None \<Rightarrow> m
                            | Some p \<Rightarrow> if p = [] then m else p)
               in (case tree_read host path' of
                     (None, host1) \<Rightarrow>
                       (Some (Error ''Couldn't find the module nor its routing module.''), host1)
                   | (Some text, host1) \<Rightarrow>
                       let ivyEnabled = isProjectUsingIvy env host1 proj
                       in (case addRouteDeclarationToModule env
                                  (createSourceFile path' text) path'
                                  (buildRoute env options ivyEnabled) of
                             Inl e \<Rightarrow> (Some e, host1)
                           | Inr (pos, toAdd) \<Rightarrow>
                               (case beginUpdate host1 path' of
                                  Inl e \<Rightarrow> (Some e, host1)
                                | Inr (recorder, host2) \<Rightarrow>
                                    (None, commitUpdate env host2
                                             (insertLeft recorder pos toAdd)))))))"

text \<open>Line 117: \<^verbatim>\<open>modulePath.split('.')[0] + '-routing'\<close>.\<close>

definition routingModuleName :: "string \<Rightarrow> string" where
  "routingModuleName modulePath =
     takeWhile (\<lambda>c. c \<noteq> CHR ''.'') modulePath @ ''-routing''"

text \<open>
  Lines 114-125. \<^verbatim>\<open>options.module as string\<close> is \<^verbatim>\<open>undefined\<close> when the option is
  absent, and \<^verbatim>\<open>split\<close> on it throws outside the \<^verbatim>\<open>try\<close>; whatever the lookup throws
  inside the \<^verbatim>\<open>try\<close> is dropped.
\<close>

definition getRoutingModulePath ::
    "'p env \<Rightarrow> tree \<Rightarrow> ModuleOptions \<Rightarrow> error + string option" where
  "getRoutingModulePath env host options =
     (case module options of
        None \<Rightarrow> Inl (TypeError ''Cannot read property 'split' of undefined'')
      | Some modulePath \<Rightarrow>
          (case findModuleFromOptions env host
                  (options\<lparr>module := Some (routingModuleName modulePath)\<rparr>) of
             Inl _ \<Rightarrow> Inr None
           | Inr p \<Rightarrow> Inr p))"

text \<open>Line 156.\<close>

definition isLazyLoadedModuleGen :: "ModuleOptions \<Rightarrow> bool" where
  "isLazyLoadedModuleGen options = (truthy (route options) \<and> truthy (module options))"

text \<open>
  Lines 143-162 of the default export: the options object is rewritten in place
  (\<^verbatim>\<open>path\<close>, \<^verbatim>\<open>module\<close>, \<^verbatim>\<open>name\<close>, \<^verbatim>\<open>routingScope\<close>), the routing module is looked up
  and the project is fetched. The result is the options object as it stands, and
  either the error thrown or the routing module path and the project.
\<close>

definition default_prepare ::
    "'p env \<Rightarrow> ModuleOptions \<Rightarrow> tree \<Rightarrow> ModuleOptions \<times> (error + string option \<times> 'p)" where
  "default_prepare env options host =
     (case (case path options of
              None \<Rightarrow> createDefaultPath env host (project options)
            | Some p \<Rightarrow> Inr p) of
        Inl e \<Rightarrow> (options, Inl e)
      | Inr p0 \<Rightarrow>
          let o1 = options\<lparr>path := Some p0\<rparr>
          in (case (if truthy (module o1) then findModuleFromOptions env host o1
                    else Inr (module o1)) of
                Inl e \<Rightarrow> (o1, Inl e)
              | Inr m \<Rightarrow>
                  let o2 = o1\<lparr>module := m\<rparr>;
                      parsedPath = parseName env p0 (name o2);
                      o3 = o2\<lparr>name := loc_name parsedPath,
                              path := Some (loc_path parsedPath)\<rparr>;
                      o4 = (if isLazyLoadedModuleGen o3
                            then o3\<lparr>routingScope := Some Child\<rparr> else o3)
                  in (case (if isLazyLoadedModuleGen o3
                            then getRoutingModulePath env host o4 else Inr None) of
                        Inl e \<Rightarrow> (o4, Inl e)
                      | Inr routingModulePath \<Rightarrow>
                          (case getProject env host (project o4) of
                             Inl e \<Rightarrow> (o4, Inl e)
                           | Inr proj \<Rightarrow> (o4, Inr (routingModulePath, proj))))))"

text \<open>
  Lines 163-175: the template source. By line 153 \<^verbatim>\<open>options.path\<close> is
  \<^verbatim>\<open>parsedPath.path\<close>, the directory handed to \<^verbatim>\<open>move\<close>.
\<close>

definition templateSource :: "ModuleOptions \<Rightarrow> string option \<Rightarrow> template_source" where
  "templateSource options routingModulePath =
     \<lparr>keepRoutingTemplate =
        (routing options \<or> (isLazyLoadedModuleGen options \<and> truthy routingModulePath)),
      lazyRoute = isLazyLoadedModuleGen options,
      routeDeclarationInlined = (\<not> truthy routingModulePath),
      templateOptions = options,
      moveTo = interpolate (path options)\<rparr>"

text \<open>Lines 177-188: the rules handed to \<^verbatim>\<open>chain\<close>.\<close>

definition default_rules ::
    "'p env \<Rightarrow> ModuleOptions \<Rightarrow> 'p \<Rightarrow> string option \<Rightarrow> rule list" where
  "default_rules env options proj routingModulePath =
     [if \<not> isLazyLoadedModuleGen options then addDeclarationToNgModule env options else noop,
      addRouteDeclarationToNgModule env options proj routingModulePath,
      if isLazyLoadedModuleGen options then schematic env ''component'' options True else noop,
      mergeWith env (templateSource options routingModulePath),
      if lintFix options then applyLintFix env (path options) else noop]"

text \<open>
  Lines 141-190, the default export: the options object at the end of the run, the
  error that ended it if one did, and the tree.
\<close>

definition default_schematic ::
    "'p env \<Rightarrow> ModuleOptions \<Rightarrow> tree \<Rightarrow> ModuleOptions \<times> error option \<times> tree" where
  "default_schematic env options host =
     (case default_prepare env options host of
        (options', Inl e) \<Rightarrow> (options', Some e, host)
      | (options', Inr (routingModulePath, proj)) \<Rightarrow>
          (options', chain_rules (default_rules env options' proj routingModulePath) host))"

section \<open>A concrete workspace\<close>

text \<open>
  A small workspace on which the theorems below are instantiated: an application
  module and its routing module under \<^verbatim>\<open>/src/app\<close>, the options of
  \<^verbatim>\<open>ng generate module widget --module app --route widgets\<close>, and collaborators that
  answer on it as the utilities they stand for would: \<open>classify\<close> capitalises,
  \<open>normalize\<close> drops doubled slashes, the module lookup tries the identifier and the
  identifier with \<^verbatim>\<open>.module.ts\<close>, the import analyzer inserts at the top of the file,
  the route analyzer inserts before the first closing bracket and throws when there is
  none, and an insert is merged by placing it at its offset.
\<close>

definition ex_classify :: "string \<Rightarrow> string" where
  "ex_classify s =
     (case s of
        [] \<Rightarrow> []
      | c # cs \<Rightarrow>
          (case map_of (zip ''abcdefghijklmnopqrstuvwxyz'' ''ABCDEFGHIJKLMNOPQRSTUVWXYZ'') c of
             None \<Rightarrow> c
           | Some u \<Rightarrow> u) # cs)"

fun ex_normalize :: "string \<Rightarrow> string" where
  "ex_normalize (a # b # cs) =
     (if a = CHR ''/'' \<and> b = CHR ''/'' then ex_normalize (b # cs)
      else a # ex_normalize (b # cs))"
| "ex_normalize cs = cs"

definition ex_dirname :: "string \<Rightarrow> string" where
  "ex_dirname p = rev (drop 1 (dropWhile (\<lambda>c. c \<noteq> CHR ''/'') (rev p)))"

definition ex_findModule :: "tree \<Rightarrow> ModuleOptions \<Rightarrow> error + string option" where
  "ex_findModule host options =
     (case module options of
        None \<Rightarrow> Inl (Error ''No module given.'')
      | Some m \<Rightarrow>
          if files host m \<noteq> None then Inr (Some m)
          else if files host (m @ ''.module.ts'') \<noteq> None then Inr (Some (m @ ''.module.ts''))
          else Inl (Error (''Specified module '' @ m @ '' does not exist.'')))"

definition ex_addRoute :: "source_file \<Rightarrow> string \<Rightarrow> string \<Rightarrow> error + nat \<times> string" where
  "ex_addRoute source fileToAdd routeLiteral =
     (if CHR '']'' \<in> set (sourceText source)
      then Inr (length (takeWhile (\<lambda>c. c \<noteq> CHR '']'') (sourceText source)), routeLiteral)
      else Inl (Error (''Couldn't find a route declaration in '' @ fileToAdd @ ''.'')))"

definition ex_env :: "unit env" where
  "ex_env =
     \<lparr>classify = ex_classify,
      dasherize = (\<lambda>s. s),
      normalize = ex_normalize,
      buildRelativePath = (\<lambda>from to. ''.'' @ drop (length (ex_dirname from)) to),
      addImportToModule = (\<lambda>source p symbolName rel.
         [InsertChange p 0 (''import { '' @ symbolName @ '' } from '' @ sq @ rel @ sq @ '';'')]),
      addRouteDeclarationToModule = ex_addRoute,
      findModuleFromOptions = ex_findModule,
      createDefaultPath = (\<lambda>host p. Inr ''/src/app''),
      parseName = (\<lambda>p n. \<lparr>loc_name = n, loc_path = p\<rparr>),
      getProject = (\<lambda>host p. Inr ()),
      isProjectUsingIvy = (\<lambda>host p. False),
      schematic = (\<lambda>n options skipImport. noop),
      mergeWith = (\<lambda>t. noop),
      applyLintFix = (\<lambda>p. noop),
      mergeInserts = (\<lambda>t ins. foldl (\<lambda>s (pos, toAdd). take pos s @ toAdd @ drop pos s) t ins)\<rparr>"

definition ex_host :: tree where
  "ex_host =
     \<lparr>files = [''/src/app/app.module.ts'' \<mapsto> ''RouterModule.forRoot([])'',
               ''/src/app/app-routing.module.ts'' \<mapsto> ''const routes: Routes = [];''],
      ops = []\<rparr>"

definition ex_host_no_routes :: tree where
  "ex_host_no_routes =
     \<lparr>files = [''/src/app/app.module.ts'' \<mapsto> ''export class AppModule {}''],
      ops = []\<rparr>"

definition ex_host_empty :: tree where
  "ex_host_empty = \<lparr>files = Map.empty, ops = []\<rparr>"

definition ex_options :: ModuleOptions where
  "ex_options =
     \<lparr>name = ''widget'', path = Some ''/src/app'', project = Some ''app'',
      module = Some ''/src/app/app.module.ts'', route = Some ''widgets'',
      routingScope = Some Root, flat = False, routing = False, lintFix = False\<rparr>"

text \<open>
  The same workspace as the command line gives it: the module named by its identifier
  \<^verbatim>\<open>app\<close>, a module lookup that tries the base name of the identifier with
  \<^verbatim>\<open>.module.ts\<close> in the directory of \<open>path\<close>, and a project lookup that throws when
  the tree holds no \<^verbatim>\<open>/angular.json\<close>.
\<close>

definition ex_basename :: "string \<Rightarrow> string" where
  "ex_basename p = rev (takeWhile (\<lambda>c. c \<noteq> CHR ''/'') (rev p))"

definition ex_findModule_cli :: "tree \<Rightarrow> ModuleOptions \<Rightarrow> error + string option" where
  "ex_findModule_cli host options =
     (case module options of
        None \<Rightarrow> Inl (Error ''No module given.'')
      | Some m \<Rightarrow>
          let candidate =
                ex_normalize (''/'' @ interpolate (path options) @ ''/''
                              @ ex_basename m @ ''.module.ts'')
          in if files host candidate \<noteq> None then Inr (Some candidate)
             else Inl (Error (''Specified module '' @ m @ '' does not exist.'')))"

definition ex_getProject :: "tree \<Rightarrow> string option \<Rightarrow> error + unit" where
  "ex_getProject host p =
     (if files host ''/angular.json'' = None
      then Inl (SchematicsException ''Could not find (undefined)'')
      else Inr ())"

definition ex_env_cli :: "unit env" where
  "ex_env_cli = ex_env\<lparr>findModuleFromOptions := ex_findModule_cli\<rparr>"

definition ex_env_workspace :: "unit env" where
  "ex_env_workspace = ex_env\<lparr>getProject := ex_getProject\<rparr>"

definition ex_options_cli :: ModuleOptions where
  "ex_options_cli = ex_options\<lparr>module := Some ''app''\<rparr>"

definition ex_host_no_sibling :: tree where
  "ex_host_no_sibling =
     \<lparr>files = [''/src/app/app.module.ts'' \<mapsto> ''RouterModule.forRoot([])''],
      ops = []\<rparr>"

section \<open>Properties of the rules\<close>

lemmas ex_defs = ex_env_def ex_host_def ex_options_def ex_findModule_def ex_addRoute_def
  ex_classify_def ex_dirname_def ex_host_no_routes_def ex_host_empty_def

lemmas ex_cli_defs = ex_env_cli_def ex_options_cli_def ex_findModule_cli_def ex_basename_def
  ex_host_no_sibling_def ex_env_workspace_def ex_getProject_def

lemma addDeclaration_falsy_module:
  "\<not> truthy (module options) \<Longrightarrow> addDeclarationToNgModule env options host = (None, host)"
  by (simp add: addDeclarationToNgModule_def truthy_def split: option.splits)

lemma addRoute_falsy_route:
  "\<not> truthy (route options) \<Longrightarrow>
   addRouteDeclarationToNgModule env options proj rmp host = (None, host)"
  by (simp add: addRouteDeclarationToNgModule_def)

lemma addRoute_module_required:
  "truthy (route options) \<Longrightarrow> \<not> truthy (module options) \<Longrightarrow>
   addRouteDeclarationToNgModule env options proj rmp host =
     (Some (Error ''Module option required when creating a lazy loaded routing module.''), host)"
  by (simp add: addRouteDeclarationToNgModule_def truthy_def split: option.splits)

lemma default_prepare_frame:
  "project (fst (default_prepare env options host)) = project options \<and>
   route (fst (default_prepare env options host)) = route options \<and>
   flat (fst (default_prepare env options host)) = flat options \<and>
   routing (fst (default_prepare env options host)) = routing options \<and>
   lintFix (fst (default_prepare env options host)) = lintFix options"
  by (simp add: default_prepare_def Let_def split: sum.splits option.splits)

lemma default_prepare_falsy_module:
  "\<not> truthy (module options) \<Longrightarrow>
   module (fst (default_prepare env options host)) = module options"
  by (simp add: default_prepare_def Let_def split: sum.splits option.splits)

lemma default_schematic_options:
  "fst (default_schematic env options host) = fst (default_prepare env options host)"
  by (simp add: default_schematic_def split: prod.splits sum.splits)

lemma default_prepare_scope:
  "routingScope (fst (default_prepare env options host)) = routingScope options \<or>
   routingScope (fst (default_prepare env options host)) = Some Child \<and>
   isLazyLoadedModuleGen (fst (default_prepare env options host))"
  by (simp add: default_prepare_def Let_def isLazyLoadedModuleGen_def split: sum.splits option.splits)

lemma getRoutingModulePath_total:
  "module options = Some m \<Longrightarrow>
   getRoutingModulePath env host options =
     Inr (case findModuleFromOptions env host (options\<lparr>module := Some (routingModuleName m)\<rparr>) of
            Inl e \<Rightarrow> None | Inr p \<Rightarrow> p)"
  by (simp add: getRoutingModulePath_def split: sum.splits)

lemma addRoute_unreadable:
  assumes "truthy (route options)" and "module options = Some m" and "m \<noteq> []"
    and "files host (case rmp of None \<Rightarrow> m | Some p \<Rightarrow> if p = [] then m else p) = None"
  shows "addRouteDeclarationToNgModule env options proj rmp host =
     (Some (Error ''Couldn't find the module nor its routing module.''),
      host\<lparr>ops := ops host @ [Read (case rmp of None \<Rightarrow> m | Some p \<Rightarrow> if p = [] then m else p)]\<rparr>)"
  using assms by (simp add: addRouteDeclarationToNgModule_def tree_read_def Let_def)

lemma addRoute_readable:
  assumes "truthy (route options)" and "module options = Some m" and "m \<noteq> []"
    and "files host (case rmp of None \<Rightarrow> m | Some p \<Rightarrow> if p = [] then m else p) = Some text"
  shows "addRouteDeclarationToNgModule env options proj rmp host =
     (let target = (case rmp of None \<Rightarrow> m | Some p \<Rightarrow> if p = [] then m else p);
          host1 = host\<lparr>ops := ops host @ [Read target]\<rparr>
      in case addRouteDeclarationToModule env (createSourceFile target text) target
                (buildRoute env options (isProjectUsingIvy env host1 proj)) of
           Inl e \<Rightarrow> (Some e, host1)
         | Inr (pos, toAdd) \<Rightarrow>
             (None, host\<lparr>files := (files host)(target \<mapsto> mergeInserts env text [(pos, toAdd)]),
                         ops := ops host @ [Read target, BeginUpdate target,
                                            CommitUpdate target [(pos, toAdd)]]\<rparr>))"
  using assms
  by (simp add: addRouteDeclarationToNgModule_def tree_read_def Let_def beginUpdate_def
      commitUpdate_def insertLeft_def split: sum.splits prod.splits)

lemma ex_prepare:
  "default_prepare ex_env ex_options ex_host =
     (ex_options\<lparr>routingScope := Some Child\<rparr>,
      Inr (Some ''/src/app/app-routing.module.ts'', ()))"
  by (simp add: default_prepare_def ex_defs truthy_def isLazyLoadedModuleGen_def
      getRoutingModulePath_def routingModuleName_def)

lemma default_prepare_lazy:
  assumes "(case path opts of None \<Rightarrow> createDefaultPath env host (project opts)
            | Some p \<Rightarrow> Inr p) = Inr dir"
    and "truthy (route opts)" and "truthy (module opts)"
    and "findModuleFromOptions env host (opts\<lparr>path := Some dir\<rparr>) = Inr (Some found)"
    and "found \<noteq> []"
    and "prepared = opts\<lparr>module := Some found,
                          name := loc_name (parseName env dir (name opts)),
                          path := Some (loc_path (parseName env dir (name opts))),
                          routingScope := Some Child\<rparr>"
    and "rmp = (case findModuleFromOptions env host
                       (prepared\<lparr>module := Some (routingModuleName found)\<rparr>) of
                  Inl e \<Rightarrow> None
                | Inr p \<Rightarrow> p)"
  shows "default_prepare env opts host =
           (prepared, case getProject env host (project opts) of
                        Inl e \<Rightarrow> Inl e
                      | Inr pr \<Rightarrow> Inr (rmp, pr))"
  using assms
  by (simp add: default_prepare_def Let_def isLazyLoadedModuleGen_def truthy_def
      getRoutingModulePath_def split: sum.splits)

lemma ex_prepare_cli:
  "default_prepare ex_env_cli ex_options_cli ex_host =
     (ex_options_cli\<lparr>module := Some ''/src/app/app.module.ts'', routingScope := Some Child\<rparr>,
      Inr (Some ''/src/app/app-routing.module.ts'', ()))"
  by (simp add: default_prepare_def ex_defs ex_cli_defs truthy_def isLazyLoadedModuleGen_def
      getRoutingModulePath_def routingModuleName_def interpolate_def)

lemma foldl_record_change:
  "foldl record_change r cs =
     r\<lparr>rec_inserts := rec_inserts r @
          concat (map (\<lambda>c. case c of InsertChange f pos toAdd \<Rightarrow> [(pos, toAdd)] | _ \<Rightarrow> []) cs)\<rparr>"
  by (induction cs arbitrary: r)
    (auto simp: record_change_def insertLeft_def split: change.splits)

text \<open>
  The routing module name of line 117 on the spec's example, and on every path whose
  directory part has no dot: there the first dot of the path is the first dot of the
  base name.
\<close>

lemma routingModuleName_example:
  "routingModuleName ''foo.module.ts'' = ''foo-routing''"
  by (simp add: routingModuleName_def)

lemma routingModuleName_plain_directory:
  assumes "CHR ''.'' \<notin> set dir"
  shows "routingModuleName (dir @ base) = dir @ takeWhile (\<lambda>c. c \<noteq> CHR ''.'') base @ ''-routing''"
proof -
  have "c \<noteq> CHR ''.''" if "c \<in> set dir" for c
    using that assms by auto
  then show ?thesis
    by (simp add: routingModuleName_def)
qed

section \<open>The claims\<close>

text \<open>
  C1. For options with \<open>route\<close> set, the synthesized route entry is the one object
  literal \<^verbatim>\<open>{ path: '<route>', loadChildren: <loader> }\<close>. With the Ivy flag the loader
  is \<^verbatim>\<open>() => import('<modulePath>').then(m => m.<ModuleName>)\<close>, without it the string
  \<^verbatim>\<open>'<modulePath>#<ModuleName>'\<close>, where the module path is \<^verbatim>\<open>./<name>/<name>.module\<close>
  and the module name is the classified name followed by \<^verbatim>\<open>Module\<close>. The text before
  and after the loader is the same in both outputs.
\<close>

theorem buildRoute_shape:
  assumes "route options = Some r"
  shows "let modulePath = ''./'' @ name options @ ''/'' @ name options @ ''.module'';
             moduleName = classify env (name options) @ ''Module'';
             before = ''{ path: '' @ sq @ r @ sq @ '', loadChildren: '';
             after = '' }''
         in buildRoute env options True =
              before
              @ (''() => import('' @ sq @ modulePath @ sq @ '').then(m => m.'' @ moduleName @ '')'')
              @ after
          \<and> buildRoute env options False =
              before @ (sq @ modulePath @ ''#'' @ moduleName @ sq) @ after"
  using assms by (simp add: buildRoute_def interpolate_def Let_def)

theorem buildRoute_shape_witness:
  "route ex_options = Some ''widgets'' \<and>
   buildRoute ex_env ex_options True =
     ''{ path: 'widgets', loadChildren: () => import('./widget/widget.module').then(m => m.WidgetModule) }'' \<and>
   buildRoute ex_env ex_options False =
     ''{ path: 'widgets', loadChildren: './widget/widget.module#WidgetModule' }''"
proof -
  have r: "route ex_options = Some ''widgets''"
    by (simp add: ex_options_def)
  from buildRoute_shape [OF r, of ex_env] show ?thesis
    by (simp add: Let_def sq_def ex_options_def ex_env_def ex_classify_def)
qed

text \<open>
  C2, as claimed, fails. \<open>route\<close> is set and \<open>module\<close> is not, and the tree holds no
  workspace file: \<open>getProject\<close>, which line 162 calls before any rule runs, throws,
  and the run ends in that error, not in the configuration error.
\<close>

theorem route_without_module_counterexample:
  "truthy (route (ex_options\<lparr>module := None\<rparr>)) \<and>
   \<not> truthy (module (ex_options\<lparr>module := None\<rparr>)) \<and>
   snd (default_schematic ex_env_workspace (ex_options\<lparr>module := None\<rparr>) ex_host) =
     (Some (SchematicsException ''Could not find (undefined)''), ex_host) \<and>
   fst (snd (default_schematic ex_env_workspace (ex_options\<lparr>module := None\<rparr>) ex_host)) \<noteq>
     Some (Error ''Module option required when creating a lazy loaded routing module.'')"
  by (simp add: default_schematic_def default_prepare_def ex_defs ex_cli_defs truthy_def
      isLazyLoadedModuleGen_def)

text \<open>
  C2, amended. When \<open>route\<close> is set and \<open>module\<close> is not (as the code tests them:
  \<open>route\<close> truthy, \<open>module\<close> undefined or empty), the route rule throws the
  configuration error with the tree exactly as it received it: no read, no update.
  The run always ends in an error with the tree as it was given, and the error is:
  the one \<open>createDefaultPath\<close> throws, when \<open>path\<close> is undefined and that lookup
  fails; otherwise the one \<open>getProject\<close> throws, when it fails; otherwise the
  configuration error. The history of the tree records the operations of
  \<^verbatim>\<open>index.ts\<close>; what these two lookups read of the workspace is not part of it.
\<close>

theorem route_without_module_is_fatal:
  assumes "truthy (route options)" and "\<not> truthy (module options)"
  shows "addRouteDeclarationToNgModule env options proj rmp host =
           (Some (Error ''Module option required when creating a lazy loaded routing module.''),
            host)
       \<and> snd (default_schematic env options host) =
           (case (case path options of
                    None \<Rightarrow> createDefaultPath env host (project options)
                  | Some p \<Rightarrow> Inr p) of
              Inl e \<Rightarrow> (Some e, host)
            | Inr dir \<Rightarrow>
                (case getProject env host (project options) of
                   Inl e \<Rightarrow> (Some e, host)
                 | Inr pr \<Rightarrow>
                     (Some (Error
                        ''Module option required when creating a lazy loaded routing module.''),
                      host)))"
proof
  show "addRouteDeclarationToNgModule env options proj rmp host =
           (Some (Error ''Module option required when creating a lazy loaded routing module.''),
            host)"
    by (rule addRoute_module_required [OF assms])
next
  have m: "\<not> truthy (module (options\<lparr>path := Some dir\<rparr>))" for dir
    using assms(2) by simp
  have lazy: "\<not> isLazyLoadedModuleGen o'" if "module o' = module options" for o'
    using that assms(2) by (simp add: isLazyLoadedModuleGen_def)
  have run: "chain_rules (default_rules env o' pr x) host =
      (Some (Error ''Module option required when creating a lazy loaded routing module.''), host)"
    if "module o' = module options" and "route o' = route options" for o' pr x
  proof -
    have "\<not> truthy (module o')" "truthy (route o')"
      using that assms by simp_all
    then show ?thesis
      using lazy [OF that(1)]
      by (simp add: default_rules_def addDeclaration_falsy_module addRoute_module_required)
  qed
  show "snd (default_schematic env options host) =
           (case (case path options of
                    None \<Rightarrow> createDefaultPath env host (project options)
                  | Some p \<Rightarrow> Inr p) of
              Inl e \<Rightarrow> (Some e, host)
            | Inr dir \<Rightarrow>
                (case getProject env host (project options) of
                   Inl e \<Rightarrow> (Some e, host)
                 | Inr pr \<Rightarrow>
                     (Some (Error
                        ''Module option required when creating a lazy loaded routing module.''),
                      host)))"
    using m
    by (simp add: default_schematic_def default_prepare_def Let_def lazy run
        split: sum.splits option.splits)
qed

theorem route_without_module_is_fatal_witness:
  "truthy (route (ex_options\<lparr>module := None\<rparr>)) \<and>
   \<not> truthy (module (ex_options\<lparr>module := None\<rparr>)) \<and>
   addRouteDeclarationToNgModule ex_env (ex_options\<lparr>module := None\<rparr>) () None ex_host =
     (Some (Error ''Module option required when creating a lazy loaded routing module.''),
      ex_host) \<and>
   snd (default_schematic ex_env (ex_options\<lparr>module := None\<rparr>) ex_host) =
     (Some (Error ''Module option required when creating a lazy loaded routing module.''),
      ex_host) \<and>
   snd (default_schematic ex_env_workspace (ex_options\<lparr>module := None\<rparr>) ex_host) =
     (Some (SchematicsException ''Could not find (undefined)''), ex_host)"
proof -
  have r: "truthy (route (ex_options\<lparr>module := None\<rparr>))"
    by (simp add: ex_options_def truthy_def)
  have m: "\<not> truthy (module (ex_options\<lparr>module := None\<rparr>))"
    by (simp add: truthy_def)
  have p: "path (ex_options\<lparr>module := None\<rparr>) = Some ''/src/app''"
    by (simp add: ex_options_def)
  have g: "getProject ex_env ex_host q = Inr ()"
      "getProject ex_env_workspace ex_host q = Inl (SchematicsException ''Could not find (undefined)'')"
    for q
    by (simp_all add: ex_env_def ex_env_workspace_def ex_getProject_def ex_host_def)
  from route_without_module_is_fatal [OF r m, of ex_env "()" None ex_host]
    route_without_module_is_fatal [OF r m, of ex_env_workspace "()" None ex_host]
    r m p g
  show ?thesis by simp
qed

text \<open>
  C3. When lazy routing is active (\<open>route\<close> and the resolved \<open>module\<close> both truthy
  once the options are prepared), the run is the chain of the route rule, the
  component schematic, the template merge and the lint rule: the first rule of the
  chain is \<open>noop\<close> and leaves the tree as it is. In every run, if the first rule of
  the chain does anything at all to the tree (even a read), the route rule is the
  identity: a unit is never both imported and registered by a route entry.
\<close>

theorem lazy_route_skips_import:
  "(\<forall>opts. default_prepare env opts host = (options, Inr (rmp, proj)) \<and>
        isLazyLoadedModuleGen options \<longrightarrow>
      snd (default_schematic env opts host) =
        chain_rules
          [addRouteDeclarationToNgModule env options proj rmp,
           schematic env ''component'' options True,
           mergeWith env (templateSource options rmp),
           if lintFix options then applyLintFix env (path options) else noop] host)
   \<and> (isLazyLoadedModuleGen options \<longrightarrow> (default_rules env options proj rmp ! 0) h = (None, h))
   \<and> ((default_rules env options proj rmp ! 0) h \<noteq> (None, h) \<longrightarrow>
        (default_rules env options proj rmp ! 1) h' = (None, h'))"
proof (intro conjI allI impI)
  fix opts
  assume "default_prepare env opts host = (options, Inr (rmp, proj)) \<and>
        isLazyLoadedModuleGen options"
  then show "snd (default_schematic env opts host) =
        chain_rules
          [addRouteDeclarationToNgModule env options proj rmp,
           schematic env ''component'' options True,
           mergeWith env (templateSource options rmp),
           if lintFix options then applyLintFix env (path options) else noop] host"
    by (simp add: default_schematic_def default_rules_def noop_def)
next
  assume "isLazyLoadedModuleGen options"
  then show "(default_rules env options proj rmp ! 0) h = (None, h)"
    by (simp add: default_rules_def noop_def)
next
  assume a: "(default_rules env options proj rmp ! 0) h \<noteq> (None, h)"
  have "\<not> truthy (route options)"
  proof
    assume r: "truthy (route options)"
    show False
    proof (cases "truthy (module options)")
      case True
      with r a show False
        by (simp add: default_rules_def isLazyLoadedModuleGen_def noop_def)
    next
      case False
      with a show False
        by (simp add: default_rules_def isLazyLoadedModuleGen_def
            addDeclaration_falsy_module)
    qed
  qed
  then show "(default_rules env options proj rmp ! 1) h' = (None, h')"
    by (simp add: default_rules_def addRoute_falsy_route)
qed

theorem lazy_route_skips_import_witness:
  "default_prepare ex_env ex_options ex_host =
     (ex_options\<lparr>routingScope := Some Child\<rparr>,
      Inr (Some ''/src/app/app-routing.module.ts'', ())) \<and>
   isLazyLoadedModuleGen (ex_options\<lparr>routingScope := Some Child\<rparr>) \<and>
   snd (default_schematic ex_env ex_options ex_host) =
     chain_rules
       [addRouteDeclarationToNgModule ex_env (ex_options\<lparr>routingScope := Some Child\<rparr>) ()
          (Some ''/src/app/app-routing.module.ts''),
        noop, noop, noop] ex_host \<and>
   (default_rules ex_env (ex_options\<lparr>routingScope := Some Child\<rparr>) ()
      (Some ''/src/app/app-routing.module.ts'') ! 0) ex_host = (None, ex_host) \<and>
   (default_rules ex_env (ex_options\<lparr>route := None\<rparr>) () None ! 0) ex_host \<noteq> (None, ex_host) \<and>
   (default_rules ex_env (ex_options\<lparr>route := None\<rparr>) () None ! 1) ex_host = (None, ex_host)"
proof -
  have l: "isLazyLoadedModuleGen (ex_options\<lparr>routingScope := Some Child\<rparr>)"
    by (simp add: isLazyLoadedModuleGen_def truthy_def ex_options_def)
  have i: "(default_rules ex_env (ex_options\<lparr>route := None\<rparr>) () None ! 0) ex_host
             \<noteq> (None, ex_host)"
    by (simp add: default_rules_def isLazyLoadedModuleGen_def truthy_def ex_options_def
        addDeclarationToNgModule_def tree_read_def ex_host_def beginUpdate_def
        commitUpdate_def Let_def)
  have e: "schematic ex_env ''component'' o' True = noop"
      "mergeWith ex_env t = noop" "lintFix (ex_options\<lparr>routingScope := Some Child\<rparr>) = False"
    for o' t
    by (simp_all add: ex_env_def ex_options_def)
  from lazy_route_skips_import
    [of ex_env ex_host "ex_options\<lparr>routingScope := Some Child\<rparr>"
        "Some ''/src/app/app-routing.module.ts''" "()" ex_host]
    lazy_route_skips_import
    [of ex_env ex_host "ex_options\<lparr>route := None\<rparr>" None "()" ex_host ex_host]
    ex_prepare l i e
  show ?thesis by simp
qed

text \<open>
  C4. The routing module name is to be the module path with everything from the first
  dot of its base name replaced by \<^verbatim>\<open>-routing\<close>. Line 117 cuts at the first dot of the
  whole path. For the module \<^verbatim>\<open>/projects/my.lib/src/app/app.module.ts\<close> the lookup is
  made for \<^verbatim>\<open>/projects/my-routing\<close>, not for \<^verbatim>\<open>/projects/my.lib/src/app/app-routing\<close>.
\<close>

theorem routingModuleName_dotted_directory:
  "routingModuleName ''/projects/my.lib/src/app/app.module.ts'' = ''/projects/my-routing''
   \<and> getRoutingModulePath env host
        (options\<lparr>module := Some ''/projects/my.lib/src/app/app.module.ts''\<rparr>) =
      Inr (case findModuleFromOptions env host (options\<lparr>module := Some ''/projects/my-routing''\<rparr>) of
             Inl e \<Rightarrow> None
           | Inr p \<Rightarrow> p)"
  by (simp add: getRoutingModulePath_def routingModuleName_def split: sum.splits)

text \<open>
  C5. Take a run in which lazy routing is active: \<open>route\<close> is set, and the explicit
  \<open>module\<close> has resolved to the path \<open>found\<close>. Then the options are rewritten to
  \<open>prepared\<close>, and the routing module lookup returns \<open>rmp\<close> without throwing:
  \<^verbatim>\<open>undefined\<close> when \<open>findModuleFromOptions\<close> throws on the routing module name, and its
  result otherwise. The route host \<open>target\<close> is the main module \<open>found\<close> when the
  lookup threw (or gave nothing), and the sibling's path when one resolved. The run
  is then decided by the project lookup and by the route rule on \<open>target\<close> alone: it
  ends in the error of \<open>getProject\<close>, or in the error of an unreadable \<open>target\<close>,
  or in the error of the route analyzer on \<open>target\<close>; otherwise the route entry is
  committed to \<open>target\<close>, no other file is touched by it, and the component schematic,
  the template merge and the lint rule run on the tree so changed.
\<close>

theorem routing_sibling_fallback:
  assumes "(case path opts of None \<Rightarrow> createDefaultPath env host (project opts)
            | Some p \<Rightarrow> Inr p) = Inr dir"
    and "truthy (route opts)" and "truthy (module opts)"
    and "findModuleFromOptions env host (opts\<lparr>path := Some dir\<rparr>) = Inr (Some found)"
    and "found \<noteq> []"
    and "prepared = opts\<lparr>module := Some found,
                          name := loc_name (parseName env dir (name opts)),
                          path := Some (loc_path (parseName env dir (name opts))),
                          routingScope := Some Child\<rparr>"
    and "rmp = (case findModuleFromOptions env host
                       (prepared\<lparr>module := Some (routingModuleName found)\<rparr>) of
                  Inl e \<Rightarrow> None
                | Inr p \<Rightarrow> p)"
    and "target = (case rmp of None \<Rightarrow> found | Some p \<Rightarrow> if p = [] then found else p)"
  shows "fst (default_prepare env opts host) = prepared
       \<and> isLazyLoadedModuleGen prepared
       \<and> getRoutingModulePath env host prepared = Inr rmp
       \<and> (findModuleFromOptions env host
             (prepared\<lparr>module := Some (routingModuleName found)\<rparr>) = Inl e \<longrightarrow>
           rmp = None \<and> target = found)
       \<and> (findModuleFromOptions env host
             (prepared\<lparr>module := Some (routingModuleName found)\<rparr>) = Inr (Some sibling)
           \<and> sibling \<noteq> [] \<longrightarrow> rmp = Some sibling \<and> target = sibling)
       \<and> snd (default_schematic env opts host) =
           (case getProject env host (project opts) of
              Inl e \<Rightarrow> (Some e, host)
            | Inr pr \<Rightarrow>
                (case files host target of
                   None \<Rightarrow>
                     (Some (Error ''Couldn't find the module nor its routing module.''),
                      host\<lparr>ops := ops host @ [Read target]\<rparr>)
                 | Some content \<Rightarrow>
                     (case addRouteDeclarationToModule env (createSourceFile target content)
                             target
                             (buildRoute env prepared
                                (isProjectUsingIvy env
                                   (host\<lparr>ops := ops host @ [Read target]\<rparr>) pr)) of
                        Inl e \<Rightarrow> (Some e, host\<lparr>ops := ops host @ [Read target]\<rparr>)
                      | Inr (pos, toAdd) \<Rightarrow>
                          chain_rules
                            [schematic env ''component'' prepared True,
                             mergeWith env (templateSource prepared rmp),
                             if lintFix prepared then applyLintFix env (path prepared)
                             else noop]
                            (host\<lparr>files := (files host)(target \<mapsto>
                                     mergeInserts env content [(pos, toAdd)]),
                                  ops := ops host @ [Read target, BeginUpdate target,
                                                     CommitUpdate target [(pos, toAdd)]]\<rparr>))))"
proof -
  note prep = default_prepare_lazy [OF assms(1-7)]
  have r: "truthy (route prepared)"
    using assms(2,6) by simp
  have m: "module prepared = Some found"
    using assms(6) by simp
  have lazy: "isLazyLoadedModuleGen prepared"
    using r m assms(5) by (simp add: isLazyLoadedModuleGen_def truthy_def)
  have look: "getRoutingModulePath env host prepared = Inr rmp"
    using getRoutingModulePath_total [OF m, of env host] assms(7) by simp
  have route_rule: "addRouteDeclarationToNgModule env prepared pr rmp host =
      (case files host target of
         None \<Rightarrow>
           (Some (Error ''Couldn't find the module nor its routing module.''),
            host\<lparr>ops := ops host @ [Read target]\<rparr>)
       | Some content \<Rightarrow>
           (case addRouteDeclarationToModule env (createSourceFile target content) target
                   (buildRoute env prepared
                      (isProjectUsingIvy env (host\<lparr>ops := ops host @ [Read target]\<rparr>) pr)) of
              Inl e \<Rightarrow> (Some e, host\<lparr>ops := ops host @ [Read target]\<rparr>)
            | Inr (pos, toAdd) \<Rightarrow>
                (None,
                 host\<lparr>files := (files host)(target \<mapsto> mergeInserts env content [(pos, toAdd)]),
                      ops := ops host @ [Read target, BeginUpdate target,
                                         CommitUpdate target [(pos, toAdd)]]\<rparr>)))" for pr
  proof (cases "files host target")
    case None
    then show ?thesis
      using addRoute_unreadable [OF r m assms(5), of host rmp env pr]
      unfolding assms(8) by simp
  next
    case (Some content)
    then show ?thesis
      using addRoute_readable [OF r m assms(5), of host rmp content env pr]
      unfolding assms(8) by (simp add: Let_def)
  qed
  have run: "snd (default_schematic env opts host) =
      (case getProject env host (project opts) of
         Inl e \<Rightarrow> (Some e, host)
       | Inr pr \<Rightarrow> chain_rules (default_rules env prepared pr rmp) host)"
    by (simp add: default_schematic_def prep split: sum.splits)
  have chain: "chain_rules (default_rules env prepared pr rmp) host =
      (case addRouteDeclarationToNgModule env prepared pr rmp host of
         (Some e, h) \<Rightarrow> (Some e, h)
       | (None, h) \<Rightarrow>
           chain_rules
             [schematic env ''component'' prepared True,
              mergeWith env (templateSource prepared rmp),
              if lintFix prepared then applyLintFix env (path prepared) else noop] h)" for pr
    using lazy by (simp add: default_rules_def noop_def)
  show ?thesis
  proof (intro conjI impI)
    show "fst (default_prepare env opts host) = prepared"
      by (simp add: prep)
    show "isLazyLoadedModuleGen prepared"
      by (rule lazy)
    show "getRoutingModulePath env host prepared = Inr rmp"
      by (rule look)
    show "rmp = None"
      if "findModuleFromOptions env host
            (prepared\<lparr>module := Some (routingModuleName found)\<rparr>) = Inl e"
      using that assms(7) by simp
    then show "target = found"
      if "findModuleFromOptions env host
            (prepared\<lparr>module := Some (routingModuleName found)\<rparr>) = Inl e"
      using that assms(8) by simp
    show "rmp = Some sibling"
      if "findModuleFromOptions env host
            (prepared\<lparr>module := Some (routingModuleName found)\<rparr>) = Inr (Some sibling)
          \<and> sibling \<noteq> []"
      using that assms(7) by simp
    then show "target = sibling"
      if "findModuleFromOptions env host
            (prepared\<lparr>module := Some (routingModuleName found)\<rparr>) = Inr (Some sibling)
          \<and> sibling \<noteq> []"
      using that assms(8) by simp
    show "snd (default_schematic env opts host) =
           (case getProject env host (project opts) of
              Inl e \<Rightarrow> (Some e, host)
            | Inr pr \<Rightarrow>
                (case files host target of
                   None \<Rightarrow>
                     (Some (Error ''Couldn't find the module nor its routing module.''),
                      host\<lparr>ops := ops host @ [Read target]\<rparr>)
                 | Some content \<Rightarrow>
                     (case addRouteDeclarationToModule env (createSourceFile target content)
                             target
                             (buildRoute env prepared
                                (isProjectUsingIvy env
                                   (host\<lparr>ops := ops host @ [Read target]\<rparr>) pr)) of
                        Inl e \<Rightarrow> (Some e, host\<lparr>ops := ops host @ [Read target]\<rparr>)
                      | Inr (pos, toAdd) \<Rightarrow>
                          chain_rules
                            [schematic env ''component'' prepared True,
                             mergeWith env (templateSource prepared rmp),
                             if lintFix prepared then applyLintFix env (path prepared)
                             else noop]
                            (host\<lparr>files := (files host)(target \<mapsto>
                                     mergeInserts env content [(pos, toAdd)]),
                                  ops := ops host @ [Read target, BeginUpdate target,
                                                     CommitUpdate target [(pos, toAdd)]]\<rparr>))))"
      unfolding run
      by (simp add: chain route_rule split: sum.splits option.splits prod.splits)
  qed
qed


theorem routing_sibling_fallback_witness:
  "truthy (route ex_options_cli) \<and> truthy (module ex_options_cli) \<and>
   findModuleFromOptions ex_env_cli ex_host_no_sibling (ex_options_cli\<lparr>path := Some ''/src/app''\<rparr>)
     = Inr (Some ''/src/app/app.module.ts'') \<and>
   getRoutingModulePath ex_env_cli ex_host_no_sibling
       (ex_options_cli\<lparr>module := Some ''/src/app/app.module.ts'', routingScope := Some Child\<rparr>)
     = Inr None \<and>
   snd (default_schematic ex_env_cli ex_options_cli ex_host_no_sibling) =
     (None,
      ex_host_no_sibling\<lparr>files := (files ex_host_no_sibling)(''/src/app/app.module.ts'' \<mapsto>
                   ''RouterModule.forRoot([{ path: 'widgets', loadChildren: './widget/widget.module#WidgetModule' }])''),
               ops := [Read ''/src/app/app.module.ts'', BeginUpdate ''/src/app/app.module.ts'',
                       CommitUpdate ''/src/app/app.module.ts''
                         [(22, ''{ path: 'widgets', loadChildren: './widget/widget.module#WidgetModule' }'')]]\<rparr>) \<and>
   findModuleFromOptions ex_env_cli ex_host (ex_options_cli\<lparr>path := Some ''/src/app''\<rparr>)
     = Inr (Some ''/src/app/app.module.ts'') \<and>
   getRoutingModulePath ex_env_cli ex_host
       (ex_options_cli\<lparr>module := Some ''/src/app/app.module.ts'', routingScope := Some Child\<rparr>)
     = Inr (Some ''/src/app/app-routing.module.ts'') \<and>
   snd (default_schematic ex_env_cli ex_options_cli ex_host) =
     (None,
      ex_host\<lparr>files := (files ex_host)(''/src/app/app-routing.module.ts'' \<mapsto>
                   ''const routes: Routes = [{ path: 'widgets', loadChildren: './widget/widget.module#WidgetModule' }];''),
               ops := [Read ''/src/app/app-routing.module.ts'',
                       BeginUpdate ''/src/app/app-routing.module.ts'',
                       CommitUpdate ''/src/app/app-routing.module.ts''
                         [(24, ''{ path: 'widgets', loadChildren: './widget/widget.module#WidgetModule' }'')]]\<rparr>)"
proof -
  have a1: "(case path ex_options_cli of
               None \<Rightarrow> createDefaultPath ex_env_cli h (project ex_options_cli)
             | Some p \<Rightarrow> Inr p) = Inr ''/src/app''" for h
    by (simp add: ex_options_cli_def ex_options_def)
  have a2: "truthy (route ex_options_cli)" and a3: "truthy (module ex_options_cli)"
    by (simp_all add: ex_options_cli_def ex_options_def truthy_def)
  have a4: "findModuleFromOptions ex_env_cli ex_host_no_sibling
              (ex_options_cli\<lparr>path := Some ''/src/app''\<rparr>) = Inr (Some ''/src/app/app.module.ts'')"
    and a4': "findModuleFromOptions ex_env_cli ex_host
              (ex_options_cli\<lparr>path := Some ''/src/app''\<rparr>) = Inr (Some ''/src/app/app.module.ts'')"
    by (simp_all add: ex_cli_defs ex_defs interpolate_def)
  have a5: "''/src/app/app.module.ts'' \<noteq> []"
    by simp
  have pn: "parseName ex_env_cli d n = \<lparr>loc_name = n, loc_path = d\<rparr>" for d n
    by (simp add: ex_env_cli_def ex_env_def)
  have s: "findModuleFromOptions ex_env_cli ex_host_no_sibling
             (ex_options_cli\<lparr>module := Some ''/src/app/app.module.ts'', routingScope := Some Child,
                module := Some (routingModuleName ''/src/app/app.module.ts'')\<rparr>)
           = Inl (Error ''Specified module /src/app/app-routing does not exist.'')"
      "findModuleFromOptions ex_env_cli ex_host
             (ex_options_cli\<lparr>module := Some ''/src/app/app.module.ts'', routingScope := Some Child,
                module := Some (routingModuleName ''/src/app/app.module.ts'')\<rparr>)
           = Inr (Some ''/src/app/app-routing.module.ts'')"
    by (simp_all add: ex_cli_defs ex_defs interpolate_def routingModuleName_def)
  have e: "getProject ex_env_cli h q = Inr ()" "isProjectUsingIvy ex_env_cli h () = False"
      "schematic ex_env_cli ''component'' o' True = noop" "mergeWith ex_env_cli t = noop"
      "lintFix (ex_options_cli\<lparr>module := Some ''/src/app/app.module.ts'',
                                routingScope := Some Child\<rparr>) = False"
      "mergeInserts ex_env_cli c [(k, x)] = take k c @ x @ drop k c"
      "addRouteDeclarationToModule ex_env_cli = ex_addRoute"
      "classify ex_env_cli = ex_classify"
    for h q o' t c k x
    by (simp_all add: ex_env_cli_def ex_env_def ex_options_cli_def ex_options_def)
  have b: "buildRoute ex_env_cli
             (ex_options_cli\<lparr>module := Some ''/src/app/app.module.ts'', routingScope := Some Child\<rparr>)
             False =
           ''{ path: 'widgets', loadChildren: './widget/widget.module#WidgetModule' }''"
    by (simp add: buildRoute_def e ex_options_cli_def ex_options_def ex_classify_def sq_def
        interpolate_def)
  have f: "files ex_host_no_sibling ''/src/app/app.module.ts'' = Some ''RouterModule.forRoot([])''"
      "files ex_host ''/src/app/app-routing.module.ts'' = Some ''const routes: Routes = [];''"
      "ops ex_host = []" "ops ex_host_no_sibling = []"
    by (simp_all add: ex_host_def ex_host_no_sibling_def)
  have p6: "ex_options_cli\<lparr>module := Some ''/src/app/app.module.ts'', routingScope := Some Child\<rparr>
             = ex_options_cli\<lparr>module := Some ''/src/app/app.module.ts'',
                 name := loc_name (parseName ex_env_cli ''/src/app'' (name ex_options_cli)),
                 path := Some (loc_path (parseName ex_env_cli ''/src/app'' (name ex_options_cli))),
                 routingScope := Some Child\<rparr>"
    by (simp add: pn ex_options_cli_def ex_options_def)
  have p7: "None = (case findModuleFromOptions ex_env_cli ex_host_no_sibling
                      (ex_options_cli\<lparr>module := Some ''/src/app/app.module.ts'',
                         routingScope := Some Child,
                         module := Some (routingModuleName ''/src/app/app.module.ts'')\<rparr>) of
                      Inl e \<Rightarrow> None
                    | Inr p \<Rightarrow> p)"
    and p7': "Some ''/src/app/app-routing.module.ts'' =
                   (case findModuleFromOptions ex_env_cli ex_host
                      (ex_options_cli\<lparr>module := Some ''/src/app/app.module.ts'',
                         routingScope := Some Child,
                         module := Some (routingModuleName ''/src/app/app.module.ts'')\<rparr>) of
                      Inl e \<Rightarrow> None
                    | Inr p \<Rightarrow> p)"
    by (simp_all only: s sum.case)
  have p8: "''/src/app/app.module.ts'' =
              (case None of None \<Rightarrow> ''/src/app/app.module.ts''
               | Some p \<Rightarrow> if p = [] then ''/src/app/app.module.ts'' else p)"
    and p8': "''/src/app/app-routing.module.ts'' =
              (case Some ''/src/app/app-routing.module.ts'' of
                 None \<Rightarrow> ''/src/app/app.module.ts''
               | Some p \<Rightarrow> if p = [] then ''/src/app/app.module.ts'' else p)"
    by simp_all
  from routing_sibling_fallback [OF a1 a2 a3 a4 a5 p6 p7 p8]
    routing_sibling_fallback [OF a1 a2 a3 a4' a5 p6 p7' p8']
    a2 a3 a4 a4'
  show ?thesis
    by (simp add: e b f ex_addRoute_def createSourceFile_def noop_def)
qed

text \<open>
  C6, as claimed, fails. The main module of this workspace is readable and holds no
  route table, and no routing module resolves. The route rule reads the file and hands
  it to \<open>addRouteDeclarationToModule\<close>; the error it ends with is that analyzer's,
  not \<^verbatim>\<open>Couldn't find the module nor its routing module.\<close>
\<close>

theorem route_host_readable_counterexample:
  "truthy (route ex_options) \<and> truthy (module ex_options) \<and>
   getRoutingModulePath ex_env ex_host_no_routes ex_options = Inr None \<and>
   files ex_host_no_routes ''/src/app/app.module.ts'' = Some ''export class AppModule {}'' \<and>
   addRouteDeclarationToModule ex_env
     (createSourceFile ''/src/app/app.module.ts'' ''export class AppModule {}'')
     ''/src/app/app.module.ts'' (buildRoute ex_env ex_options False)
     = Inl (Error ''Couldn't find a route declaration in /src/app/app.module.ts.'') \<and>
   fst (addRouteDeclarationToNgModule ex_env ex_options () None ex_host_no_routes)
     \<noteq> Some (Error ''Couldn't find the module nor its routing module.'')"
  by (simp add: ex_defs truthy_def getRoutingModulePath_def routingModuleName_def
      addRouteDeclarationToNgModule_def tree_read_def createSourceFile_def Let_def)

text \<open>
  C6, amended. With \<open>route\<close> and \<open>module\<close> set, let the route host be the routing
  module path when there is one and the main module otherwise. When the route host
  cannot be read, the route rule fails with
  \<^verbatim>\<open>Couldn't find the module nor its routing module.\<close> after that one read, with no
  update begun. When it can be read, the rule fails exactly when
  \<open>addRouteDeclarationToModule\<close> throws, and with the error thrown there.
\<close>

theorem route_host_unreadable:
  assumes "truthy (route options)" and "module options = Some m" and "m \<noteq> []"
    and "target = (case rmp of None \<Rightarrow> m | Some p \<Rightarrow> if p = [] then m else p)"
  shows "(files host target = None \<longrightarrow>
            addRouteDeclarationToNgModule env options proj rmp host =
              (Some (Error ''Couldn't find the module nor its routing module.''),
               host\<lparr>ops := ops host @ [Read target]\<rparr>))
       \<and> (files host target = Some content \<longrightarrow>
            fst (addRouteDeclarationToNgModule env options proj rmp host) =
              (case addRouteDeclarationToModule env (createSourceFile target content) target
                      (buildRoute env options
                         (isProjectUsingIvy env (host\<lparr>ops := ops host @ [Read target]\<rparr>) proj)) of
                 Inl e \<Rightarrow> Some e
               | Inr ins \<Rightarrow> None))"
proof (intro conjI impI)
  assume "files host target = None"
  then show "addRouteDeclarationToNgModule env options proj rmp host =
              (Some (Error ''Couldn't find the module nor its routing module.''),
               host\<lparr>ops := ops host @ [Read target]\<rparr>)"
    using addRoute_unreadable [OF assms(1-3), of host rmp env proj] assms(4) by simp
next
  assume "files host target = Some content"
  then show "fst (addRouteDeclarationToNgModule env options proj rmp host) =
              (case addRouteDeclarationToModule env (createSourceFile target content) target
                      (buildRoute env options
                         (isProjectUsingIvy env (host\<lparr>ops := ops host @ [Read target]\<rparr>) proj)) of
                 Inl e \<Rightarrow> Some e
               | Inr ins \<Rightarrow> None)"
    using addRoute_readable [OF assms(1-3), of host rmp content env proj] assms(4)
    by (simp add: Let_def split: sum.splits prod.splits)
qed

theorem route_host_unreadable_witness:
  "truthy (route ex_options) \<and> module ex_options = Some ''/src/app/app.module.ts'' \<and>
   files ex_host_empty ''/src/app/app.module.ts'' = None \<and>
   addRouteDeclarationToNgModule ex_env ex_options () None ex_host_empty =
     (Some (Error ''Couldn't find the module nor its routing module.''),
      ex_host_empty\<lparr>ops := [Read ''/src/app/app.module.ts'']\<rparr>) \<and>
   files ex_host_no_routes ''/src/app/app.module.ts'' = Some ''export class AppModule {}'' \<and>
   fst (addRouteDeclarationToNgModule ex_env ex_options () None ex_host_no_routes) =
     Some (Error ''Couldn't find a route declaration in /src/app/app.module.ts.'')"
proof -
  have r: "truthy (route ex_options)"
    by (simp add: ex_options_def truthy_def)
  have m: "module ex_options = Some ''/src/app/app.module.ts''"
    by (simp add: ex_options_def)
  have n: "''/src/app/app.module.ts'' \<noteq> []"
    by simp
  have t: "''/src/app/app.module.ts'' =
             (case None of None \<Rightarrow> ''/src/app/app.module.ts''
              | Some p \<Rightarrow> if p = [] then ''/src/app/app.module.ts'' else p)"
    by simp
  have f: "files ex_host_empty ''/src/app/app.module.ts'' = None"
      "files ex_host_no_routes ''/src/app/app.module.ts'' = Some ''export class AppModule {}''"
      "ops ex_host_empty = []"
    by (simp_all add: ex_host_empty_def ex_host_no_routes_def)
  have a: "addRouteDeclarationToModule ex_env
             (createSourceFile ''/src/app/app.module.ts'' ''export class AppModule {}'')
             ''/src/app/app.module.ts'' x =
           Inl (Error ''Couldn't find a route declaration in /src/app/app.module.ts.'')" for x
    by (simp add: ex_env_def ex_addRoute_def createSourceFile_def)
  note w = route_host_unreadable [OF r m n t, where env = ex_env and proj = "()"]
  from w [where host = ex_host_empty] 
    w [where host = ex_host_no_routes and content = "''export class AppModule {}''"]
    r m f a
  show ?thesis by simp
qed

text \<open>
  C7. With \<open>module\<close> set, the import rule reads the module file. When the read yields
  \<^verbatim>\<open>null\<close> it throws \<^verbatim>\<open>File <modulePath> does not exist.\<close>; the files are as they were
  and no update was begun. Otherwise it begins an update of the module file, registers
  the inserts among the changes of \<open>addImportToModule\<close>, in order, and commits them.
\<close>

theorem import_step_source_not_found:
  assumes "module options = Some m" and "m \<noteq> []"
    and "inserts =
           concat (map (\<lambda>c. case c of InsertChange f pos toAdd \<Rightarrow> [(pos, toAdd)] | _ \<Rightarrow> [])
             (addImportToModule env (createSourceFile m content) m
                (classify env (name options @ ''Module''))
                (buildRelativePath env m (importModulePath env options))))"
  shows "(files host m = None \<longrightarrow>
            addDeclarationToNgModule env options host =
              (Some (SchematicsException (''File '' @ m @ '' does not exist.'')),
               host\<lparr>ops := ops host @ [Read m]\<rparr>))
       \<and> (files host m = Some content \<longrightarrow>
            addDeclarationToNgModule env options host =
              (None,
               host\<lparr>files := (files host)(m \<mapsto> mergeInserts env content inserts),
                    ops := ops host @ [Read m, BeginUpdate m, CommitUpdate m inserts]\<rparr>))"
  using assms
  by (simp add: addDeclarationToNgModule_def tree_read_def beginUpdate_def Let_def
      foldl_record_change commitUpdate_def)

theorem import_step_source_not_found_witness:
  "module (ex_options\<lparr>route := None\<rparr>) = Some ''/src/app/app.module.ts'' \<and>
   files ex_host_empty ''/src/app/app.module.ts'' = None \<and>
   addDeclarationToNgModule ex_env (ex_options\<lparr>route := None\<rparr>) ex_host_empty =
     (Some (SchematicsException ''File /src/app/app.module.ts does not exist.''),
      ex_host_empty\<lparr>ops := [Read ''/src/app/app.module.ts'']\<rparr>) \<and>
   files ex_host ''/src/app/app.module.ts'' = Some ''RouterModule.forRoot([])'' \<and>
   addDeclarationToNgModule ex_env (ex_options\<lparr>route := None\<rparr>) ex_host =
     (None,
      ex_host\<lparr>files := (files ex_host)(''/src/app/app.module.ts'' \<mapsto>
                  ''import { WidgetModule } from './widget/widget.module';RouterModule.forRoot([])''),
               ops := [Read ''/src/app/app.module.ts'', BeginUpdate ''/src/app/app.module.ts'',
                       CommitUpdate ''/src/app/app.module.ts''
                         [(0, ''import { WidgetModule } from './widget/widget.module';'')]]\<rparr>)"
proof -
  have m: "module (ex_options\<lparr>route := None\<rparr>) = Some ''/src/app/app.module.ts''"
    by (simp add: ex_options_def)
  have n: "''/src/app/app.module.ts'' \<noteq> []"
    by simp
  have f: "files ex_host_empty ''/src/app/app.module.ts'' = None"
      "files ex_host ''/src/app/app.module.ts'' = Some ''RouterModule.forRoot([])''"
      "ops ex_host_empty = []" "ops ex_host = []"
    by (simp_all add: ex_host_empty_def ex_host_def)
  have c: "addImportToModule ex_env
             (createSourceFile ''/src/app/app.module.ts'' ''RouterModule.forRoot([])'')
             ''/src/app/app.module.ts''
             (classify ex_env (name (ex_options\<lparr>route := None\<rparr>) @ ''Module''))
             (buildRelativePath ex_env ''/src/app/app.module.ts''
                (importModulePath ex_env (ex_options\<lparr>route := None\<rparr>))) =
           [InsertChange ''/src/app/app.module.ts'' 0
              ''import { WidgetModule } from './widget/widget.module';'']"
    by (simp add: ex_env_def ex_options_def ex_classify_def importModulePath_def
        importModulePath_raw_def interpolate_def ex_dirname_def sq_def)
  have g: "mergeInserts ex_env t [(k, x)] = take k t @ x @ drop k t" for t k x
    by (simp add: ex_env_def)
  note w = import_step_source_not_found
    [OF m n refl, where env = ex_env and content = "''RouterModule.forRoot([])''"]
  from w [where host = ex_host_empty] w [where host = ex_host] m f c g
  show ?thesis
    by simp
qed

text \<open>
  C8, as claimed, fails: the default export assigns to its options. On this workspace
  the run starts with \<open>module = app\<close> and \<open>routingScope = Root\<close> and ends with
  \<open>module = /src/app/app.module.ts\<close> and \<open>routingScope = Child\<close>.
\<close>

theorem options_rewritten_counterexample:
  "fst (default_schematic ex_env_cli ex_options_cli ex_host) =
     ex_options_cli\<lparr>module := Some ''/src/app/app.module.ts'', routingScope := Some Child\<rparr> \<and>
   module ex_options_cli = Some ''app'' \<and>
   routingScope ex_options_cli = Some Root \<and>
   fst (default_schematic ex_env_cli ex_options_cli ex_host) \<noteq> ex_options_cli"
proof -
  have s: "routingScope ex_options_cli = Some Root" "module ex_options_cli = Some ''app''"
    by (simp_all add: ex_options_cli_def ex_options_def)
  have "ex_options_cli\<lparr>module := Some ''/src/app/app.module.ts'', routingScope := Some Child\<rparr>
          \<noteq> ex_options_cli"
  proof
    assume "ex_options_cli\<lparr>module := Some ''/src/app/app.module.ts'',
                            routingScope := Some Child\<rparr> = ex_options_cli"
    then have "routingScope (ex_options_cli\<lparr>module := Some ''/src/app/app.module.ts'',
                                            routingScope := Some Child\<rparr>)
                 = routingScope ex_options_cli"
      by simp
    with s show False by simp
  qed
  with s show ?thesis
    by (simp add: default_schematic_options ex_prepare_cli)
qed

text \<open>
  C8, amended. Whatever the run does, the options at its end agree with the options at
  its start on \<open>project\<close>, \<open>route\<close>, \<open>flat\<close>, \<open>routing\<close> and \<open>lintFix\<close>; and
  \<open>routingScope\<close> is either as it was or \<open>Child\<close> with lazy routing active. The
  fields the default export rewrites are \<open>path\<close>, \<open>module\<close>, \<open>name\<close> and
  \<open>routingScope\<close> (lines 144-158).
\<close>

theorem options_frame:
  "project (fst (default_schematic env options host)) = project options \<and>
   route (fst (default_schematic env options host)) = route options \<and>
   flat (fst (default_schematic env options host)) = flat options \<and>
   routing (fst (default_schematic env options host)) = routing options \<and>
   lintFix (fst (default_schematic env options host)) = lintFix options \<and>
   (routingScope (fst (default_schematic env options host)) = routingScope options \<or>
    routingScope (fst (default_schematic env options host)) = Some Child \<and>
    isLazyLoadedModuleGen (fst (default_schematic env options host)))"
  using default_prepare_frame [of env options host] default_prepare_scope [of env options host]
  by (simp add: default_schematic_options)

text \<open>
  C9. With \<open>module\<close> undefined the import rule returns the tree it was given: the
  files and the history of operations are the same, so nothing was read, begun or
  committed.
\<close>

theorem import_step_without_module:
  assumes "module options = None"
  shows "addDeclarationToNgModule env options host = (None, host)"
  using assms by (simp add: addDeclarationToNgModule_def)

theorem import_step_without_module_witness:
  "module (ex_options\<lparr>module := None\<rparr>) = None \<and>
   addDeclarationToNgModule ex_env (ex_options\<lparr>module := None\<rparr>) ex_host = (None, ex_host)"
proof -
  have m: "module (ex_options\<lparr>module := None\<rparr>) = None"
    by simp
  from import_step_without_module [OF m, of ex_env ex_host] m show ?thesis
    by simp
qed

text \<open>
  C10. \<open>buildRoute\<close> does not look at \<open>path\<close> or \<open>flat\<close>: changing them leaves its
  text the same, and the text contains the module path \<^verbatim>\<open>./<name>/<name>.module\<close>. The
  import path of the import rule is \<open>normalize\<close> of a text that does depend on both:
  it differs between \<open>flat\<close> true and false, and two paths give the same text only
  when they are equal.
\<close>

theorem buildRoute_ignores_path_and_flat:
  "buildRoute env (options\<lparr>path := p, flat := f\<rparr>) ivyEnabled = buildRoute env options ivyEnabled
   \<and> (\<exists>before after. buildRoute env options ivyEnabled =
         before @ (''./'' @ name options @ ''/'' @ name options @ ''.module'') @ after)
   \<and> importModulePath env options = normalize env (importModulePath_raw env options)
   \<and> importModulePath_raw env (options\<lparr>flat := True\<rparr>)
       \<noteq> importModulePath_raw env (options\<lparr>flat := False\<rparr>)
   \<and> ((importModulePath_raw env (options\<lparr>path := Some q\<rparr>)
          = importModulePath_raw env (options\<lparr>path := Some q'\<rparr>)) = (q = q'))"
proof (intro conjI)
  show "buildRoute env (options\<lparr>path := p, flat := f\<rparr>) ivyEnabled
          = buildRoute env options ivyEnabled"
    by (simp add: buildRoute_def)
next
  show "\<exists>before after. buildRoute env options ivyEnabled =
         before @ (''./'' @ name options @ ''/'' @ name options @ ''.module'') @ after"
  proof (cases ivyEnabled)
    case True
    then have "buildRoute env options ivyEnabled =
        (''{ path: '' @ sq @ interpolate (route options) @ sq @ '', loadChildren: ''
           @ ''() => import('' @ sq)
        @ (''./'' @ name options @ ''/'' @ name options @ ''.module'')
        @ (sq @ '').then(m => m.'' @ classify env (name options) @ ''Module'' @ '')'' @ '' }'')"
      by (simp add: buildRoute_def Let_def)
    then show ?thesis
      by - (rule exI, rule exI, assumption)
  next
    case False
    then have "buildRoute env options ivyEnabled =
        (''{ path: '' @ sq @ interpolate (route options) @ sq @ '', loadChildren: '' @ sq)
        @ (''./'' @ name options @ ''/'' @ name options @ ''.module'')
        @ (''#'' @ classify env (name options) @ ''Module'' @ sq @ '' }'')"
      by (simp add: buildRoute_def Let_def)
    then show ?thesis
      by - (rule exI, rule exI, assumption)
  qed
next
  show "importModulePath env options = normalize env (importModulePath_raw env options)"
    by (simp add: importModulePath_def)
next
  have "length (importModulePath_raw env (options\<lparr>flat := True\<rparr>))
          < length (importModulePath_raw env (options\<lparr>flat := False\<rparr>))"
    by (simp add: importModulePath_raw_def)
  then show "importModulePath_raw env (options\<lparr>flat := True\<rparr>)
       \<noteq> importModulePath_raw env (options\<lparr>flat := False\<rparr>)"
    by auto
next
  show "(importModulePath_raw env (options\<lparr>path := Some q\<rparr>)
          = importModulePath_raw env (options\<lparr>path := Some q'\<rparr>)) = (q = q')"
    by (simp add: importModulePath_raw_def interpolate_def)
qed

end
